theory Spec2Isabelle
  imports Main "HOL-Library.Multiset" "HOL-Library.Word"
begin

section \<open>Data model (src/src/types/index.ts)\<close>

text \<open>
  The records follow the TypeScript interfaces field by field. An optional field
  (\<^verbatim>\<open>image_url?: string\<close>) is an \<open>option\<close>. Timestamps are milliseconds since the epoch
  (\<^verbatim>\<open>getTime()\<close>), and \<^verbatim>\<open>upvotes: number\<close> is an \<open>int\<close>: the counts are integers far below
  \<open>2^53\<close>, where the arithmetic of a JavaScript number is exact. Several interfaces share
  field names, so the selectors are written qualified (\<open>post.id\<close>, \<open>comment.id\<close>,
  \<open>user.id\<close>).

  A JavaScript string is a sequence of UTF-16 code units. The text that the code trims,
  measures or searches (titles, contents, queries) is modelled as such, a list of 16-bit
  words; \<open>code_units\<close> gives the code units of an ASCII literal. Identifiers, names, emails
  and toast titles, which the code only compares, splits at \<^verbatim>\<open>@\<close> or concatenates, are
  \<open>string\<close>s.
\<close>

type_synonym js_string = "16 word list"

definition code_units :: "string \<Rightarrow> js_string" where
  "code_units str = map (\<lambda>c. of_nat (of_char c)) str"

datatype PostFlag = Question | Opinion | Tip | News | Project | Discussion

record post =
  id :: string
  title :: js_string
  content :: js_string
  image_url :: "string option"
  created_at :: int
  upvotes :: int
  user_id :: string
  user_name :: "string option"
  flag :: "PostFlag option"
  repost_of :: "string option"

record comment =
  id :: string
  post_id :: string
  content :: js_string
  created_at :: int
  user_id :: string
  user_name :: "string option"

datatype ColorScheme = light | dark | system

record UserPreferences =
  showImagesInFeed :: bool
  showContentInFeed :: bool
  colorScheme :: ColorScheme

record user =
  id :: string
  full_name :: "string option"
  preferences :: UserPreferences
  email :: "string option"

text \<open>\<^verbatim>\<open>Partial<UserPreferences>\<close>: every field may be absent.\<close>

record PartialUserPreferences =
  showImagesInFeed_opt :: "bool option"
  showContentInFeed_opt :: "bool option"
  colorScheme_opt :: "ColorScheme option"

text \<open>The argument of \<^verbatim>\<open>handleAccountCreation\<close>: \<^verbatim>\<open>{id; email?; full_name?}\<close>.\<close>

record userData =
  ud_id :: string
  ud_email :: "string option"
  ud_full_name :: "string option"

section \<open>The backend collaborator\<close>

text \<open>
  The tables live in a hosted store that the client reaches through
  \<^verbatim>\<open>supabase.from(table)\<close>; that client is not part of the sources. A table is the list of
  its rows. Every request answers \<^verbatim>\<open>{data, error}\<close>; whether a request went through is a
  parameter of each operation below (\<open>True\<close>: no error), so that every branch on
  \<^verbatim>\<open>error\<close> in the source is a branch of the model. A request that errors changes nothing
  and returns no data.
\<close>

definition select_single :: "bool \<Rightarrow> ('r \<Rightarrow> bool) \<Rightarrow> 'r list \<Rightarrow> 'r option" where
  \<comment> \<open>Modelled from the spec: select-by-id of the backend, \<^verbatim>\<open>.select().eq(col, v).single()\<close>;
      the data is the matching row when exactly one row matches, and null otherwise.\<close>
  "select_single ok P rows =
     (if ok then (case filter P rows of [r] \<Rightarrow> Some r | _ \<Rightarrow> None) else None)"

definition update_rows :: "bool \<Rightarrow> ('r \<Rightarrow> bool) \<Rightarrow> ('r \<Rightarrow> 'r) \<Rightarrow> 'r list \<Rightarrow> 'r list" where
  \<comment> \<open>Modelled from the spec: update-by-id of the backend, \<^verbatim>\<open>.update(fields).eq(col, v)\<close>;
      the given fields are written into every matching row.\<close>
  "update_rows ok P f rows = (if ok then map (\<lambda>r. if P r then f r else r) rows else rows)"

definition delete_rows :: "bool \<Rightarrow> ('r \<Rightarrow> bool) \<Rightarrow> 'r list \<Rightarrow> 'r list" where
  \<comment> \<open>Modelled from the spec: delete-by-id of the backend, \<^verbatim>\<open>.delete().eq(col, v)\<close>;
      every matching row is removed.\<close>
  "delete_rows ok P rows = (if ok then filter (\<lambda>r. \<not> P r) rows else rows)"

definition insert_row :: "bool \<Rightarrow> 'r \<Rightarrow> 'r list \<Rightarrow> 'r list" where
  \<comment> \<open>Modelled from the spec: insert of the backend, \<^verbatim>\<open>.insert(row)\<close>; the row joins the table.\<close>
  "insert_row ok r rows = (if ok then rows @ [r] else rows)"

section \<open>Application state (AppProvider in src/src/contexts/AppContext.tsx)\<close>

text \<open>
  The three tables of the backend, then the React state of the provider: \<open>posts\<close>,
  \<open>comments\<close>, \<open>user\<close> (null until resolved) and \<open>isLoading\<close>. \<open>toasts\<close> records the title of
  every notification raised, oldest first.
\<close>

record app =
  db_posts :: "post list"
  db_comments :: "comment list"
  db_user_profiles :: "user list"
  posts :: "post list"
  comments :: "comment list"
  user :: "user option"
  isLoading :: bool
  toasts :: "string list"

text \<open>What an operation throws: \<^verbatim>\<open>new Error("User not authenticated")\<close>, or the backend's error.\<close>

datatype thrown = UserNotAuthenticated | BackendError

definition toast :: "string \<Rightarrow> app \<Rightarrow> app" where
  "toast t s = s\<lparr>toasts := toasts s @ [t]\<rparr>"

definition setIsLoading :: "bool \<Rightarrow> app \<Rightarrow> app" where
  "setIsLoading b s = s\<lparr>isLoading := b\<rparr>"

section \<open>Collection Store: the change handlers\<close>

text \<open>
  A change event of the push subscription: \<^verbatim>\<open>payload.eventType\<close> with \<^verbatim>\<open>payload.new\<close>
  (INSERT, UPDATE) or \<^verbatim>\<open>payload.old.id\<close> (DELETE).
\<close>

datatype 'r payload = INSERT 'r | UPDATE 'r | DELETE string

text \<open>The updater handed to \<^verbatim>\<open>setPosts\<close> by the handler of the posts channel.\<close>

fun postsOnChange :: "post payload \<Rightarrow> post list \<Rightarrow> post list" where
  "postsOnChange (INSERT new) prev = new # prev"
| "postsOnChange (UPDATE new) prev =
     map (\<lambda>p. if post.id p = post.id new then new else p) prev"
| "postsOnChange (DELETE old_id) prev = filter (\<lambda>p. post.id p \<noteq> old_id) prev"

text \<open>The updater handed to \<^verbatim>\<open>setComments\<close> by the handler of the comments channel.\<close>

fun commentsOnChange :: "comment payload \<Rightarrow> comment list \<Rightarrow> comment list" where
  "commentsOnChange (INSERT new) prev = prev @ [new]"
| "commentsOnChange (UPDATE new) prev =
     map (\<lambda>c. if comment.id c = comment.id new then new else c) prev"
| "commentsOnChange (DELETE old_id) prev = filter (\<lambda>c. comment.id c \<noteq> old_id) prev"

section \<open>Mutation Gateway\<close>

text \<open>
  Every operation takes the outcome of each backend request it makes (\<open>rd\<close>: the lookup,
  \<open>wr\<close>: the write), and returns what the source returns or throws together with the new
  state. \<^verbatim>\<open>createPost\<close> also takes the id the server assigns and the value of
  \<^verbatim>\<open>new Date()\<close>. A parameter that bears the name of a field is written with a prime.
\<close>

definition createPost ::
  "bool \<Rightarrow> string \<Rightarrow> int \<Rightarrow> js_string \<Rightarrow> js_string \<Rightarrow> string option \<Rightarrow> PostFlag option
   \<Rightarrow> string option \<Rightarrow> app \<Rightarrow> (thrown + post) \<times> app" where
  "createPost wr new_id now title' content' image_url' flag' repost_of' s0 =
     (let s = setIsLoading True s0 in
      case user s of
        None \<Rightarrow> (Inl UserNotAuthenticated, s)
      | Some u \<Rightarrow>
          (let newPost = \<lparr>post.id = new_id, post.title = title', post.content = content',
                 post.image_url = image_url', post.created_at = now, post.upvotes = 0,
                 post.user_id = user.id u, post.user_name = full_name u,
                 post.flag = flag', post.repost_of = repost_of'\<rparr>;
               s1 = s\<lparr>db_posts := insert_row wr newPost (db_posts s)\<rparr>;
               s2 = setIsLoading False s1
           in if \<not> wr then (Inl BackendError, toast ''Error creating post'' s2)
              else (Inr newPost, toast ''Post created'' s2)))"

text \<open>
  The request body of an update is JSON: a field whose value is \<^verbatim>\<open>undefined\<close> is left out
  of it, and the column keeps its value.
\<close>

definition updatePost ::
  "bool \<Rightarrow> bool \<Rightarrow> string \<Rightarrow> js_string \<Rightarrow> js_string \<Rightarrow> string option \<Rightarrow> PostFlag option
   \<Rightarrow> app \<Rightarrow> (thrown + bool) \<times> app" where
  "updatePost rd wr post_id' title' content' image_url' flag' s0 =
     (let s = setIsLoading True s0 in
      case user s of
        None \<Rightarrow> (Inl UserNotAuthenticated, s)
      | Some u \<Rightarrow>
          (let postData = select_single rd (\<lambda>p. post.id p = post_id') (db_posts s) in
           if (case postData of None \<Rightarrow> True | Some d \<Rightarrow> post.user_id d \<noteq> user.id u)
           then (Inr False, toast ''Access denied'' (setIsLoading False s))
           else
             (let s1 = s\<lparr>db_posts :=
                         update_rows wr (\<lambda>p. post.id p = post_id')
                           (\<lambda>p. p\<lparr>post.title := title', post.content := content',
                                  post.image_url :=
                                    (case image_url' of None \<Rightarrow> post.image_url p | Some v \<Rightarrow> Some v),
                                  post.flag :=
                                    (case flag' of None \<Rightarrow> post.flag p | Some v \<Rightarrow> Some v)\<rparr>)
                           (db_posts s)\<rparr>;
                  s2 = setIsLoading False s1
              in if \<not> wr then (Inr False, toast ''Error updating post'' s2)
                 else (Inr True, toast ''Post updated'' s2))))"

text \<open>
  \<open>wr_comments\<close> is the outcome of the request that deletes the comments (the source does not
  look at its error), \<open>wr_post\<close> that of the request that deletes the post.
\<close>

definition deletePost ::
  "bool \<Rightarrow> bool \<Rightarrow> bool \<Rightarrow> string \<Rightarrow> app \<Rightarrow> (thrown + bool) \<times> app" where
  "deletePost rd wr_comments wr_post post_id' s0 =
     (let s = setIsLoading True s0 in
      case user s of
        None \<Rightarrow> (Inl UserNotAuthenticated, s)
      | Some u \<Rightarrow>
          (let postData = select_single rd (\<lambda>p. post.id p = post_id') (db_posts s) in
           if (case postData of None \<Rightarrow> True | Some d \<Rightarrow> post.user_id d \<noteq> user.id u)
           then (Inr False, toast ''Access denied'' (setIsLoading False s))
           else
             (let s1 = s\<lparr>db_comments :=
                         delete_rows wr_comments (\<lambda>c. comment.post_id c = post_id') (db_comments s)\<rparr>;
                  s2 = s1\<lparr>db_posts :=
                         delete_rows wr_post (\<lambda>p. post.id p = post_id') (db_posts s1)\<rparr>;
                  s3 = setIsLoading False s2
              in if \<not> wr_post then (Inr False, toast ''Error deleting post'' s3)
                 else (Inr True, toast ''Post deleted'' s3))))"

text \<open>
  \<^verbatim>\<open>upvotePost\<close> suspends twice, at the \<^verbatim>\<open>await\<close> of the select and at the \<^verbatim>\<open>await\<close> of
  the update, and other handlers run in between. Its three stretches are given one by one:
  the check of the identity with the select, whose data the call keeps; the update, which
  writes \<^verbatim>\<open>data.upvotes + 1\<close> from the data read earlier; and the updater handed to
  \<^verbatim>\<open>setPosts\<close>. \<open>upvotePost\<close> is a call that runs through with nothing in between.
\<close>

definition upvotePost_select :: "bool \<Rightarrow> string \<Rightarrow> app \<Rightarrow> (thrown + post option) \<times> app" where
  "upvotePost_select rd post_id' s =
     (case user s of
        None \<Rightarrow> (Inl UserNotAuthenticated, s)
      | Some u \<Rightarrow>
          (case select_single rd (\<lambda>p. post.id p = post_id') (db_posts s) of
             None \<Rightarrow> (Inr None, toast ''Post not found'' s)
           | Some data \<Rightarrow> (Inr (Some data), s)))"

definition upvotePost_update :: "bool \<Rightarrow> string \<Rightarrow> post \<Rightarrow> app \<Rightarrow> app" where
  "upvotePost_update wr post_id' data s =
     s\<lparr>db_posts :=
         update_rows wr (\<lambda>p. post.id p = post_id')
           (\<lambda>p. p\<lparr>upvotes := upvotes data + 1\<rparr>) (db_posts s)\<rparr>"

definition upvotePost_setPosts :: "string \<Rightarrow> app \<Rightarrow> app" where
  "upvotePost_setPosts post_id' s =
     s\<lparr>posts :=
         map (\<lambda>p. if post.id p = post_id' then p\<lparr>upvotes := upvotes p + 1\<rparr> else p)
           (posts s)\<rparr>"

definition upvotePost :: "bool \<Rightarrow> bool \<Rightarrow> string \<Rightarrow> app \<Rightarrow> (thrown + unit) \<times> app" where
  "upvotePost rd wr post_id' s =
     (case upvotePost_select rd post_id' s of
        (Inl e, s1) \<Rightarrow> (Inl e, s1)
      | (Inr None, s1) \<Rightarrow> (Inr (), s1)
      | (Inr (Some data), s1) \<Rightarrow>
          (Inr (), upvotePost_setPosts post_id' (upvotePost_update wr post_id' data s1)))"

definition createComment ::
  "bool \<Rightarrow> string \<Rightarrow> int \<Rightarrow> string \<Rightarrow> js_string \<Rightarrow> app \<Rightarrow> (thrown + comment) \<times> app" where
  "createComment wr new_id now post_id' content' s0 =
     (let s = setIsLoading True s0 in
      case user s of
        None \<Rightarrow> (Inl UserNotAuthenticated, s)
      | Some u \<Rightarrow>
          (let newComment = \<lparr>comment.id = new_id, comment.post_id = post_id',
                 comment.content = content', comment.created_at = now,
                 comment.user_id = user.id u, comment.user_name = full_name u\<rparr>;
               s1 = s\<lparr>db_comments := insert_row wr newComment (db_comments s)\<rparr>;
               s2 = setIsLoading False s1
           in if \<not> wr then (Inl BackendError, toast ''Error creating comment'' s2)
              else (Inr newComment, s2)))"

definition deleteComment :: "bool \<Rightarrow> bool \<Rightarrow> string \<Rightarrow> app \<Rightarrow> (thrown + bool) \<times> app" where
  "deleteComment rd wr commentId s0 =
     (let s = setIsLoading True s0 in
      case user s of
        None \<Rightarrow> (Inl UserNotAuthenticated, s)
      | Some u \<Rightarrow>
          (let commentData = select_single rd (\<lambda>c. comment.id c = commentId) (db_comments s) in
           if (case commentData of None \<Rightarrow> True | Some d \<Rightarrow> comment.user_id d \<noteq> user.id u)
           then (Inr False, toast ''Access denied'' (setIsLoading False s))
           else
             (let s1 = s\<lparr>db_comments :=
                         delete_rows wr (\<lambda>c. comment.id c = commentId) (db_comments s)\<rparr>;
                  s2 = setIsLoading False s1
              in if \<not> wr then (Inr False, toast ''Error deleting comment'' s2)
                 else (Inr True, toast ''Comment deleted'' s2))))"

section \<open>Preference Manager\<close>

text \<open>The spread \<^verbatim>\<open>{...user.preferences, ...preferences}\<close>: a field that is given wins.\<close>

definition merge_preferences :: "UserPreferences \<Rightarrow> PartialUserPreferences \<Rightarrow> UserPreferences" where
  "merge_preferences old new =
     \<lparr>showImagesInFeed =
        (case showImagesInFeed_opt new of None \<Rightarrow> showImagesInFeed old | Some b \<Rightarrow> b),
      showContentInFeed =
        (case showContentInFeed_opt new of None \<Rightarrow> showContentInFeed old | Some b \<Rightarrow> b),
      colorScheme =
        (case colorScheme_opt new of None \<Rightarrow> colorScheme old | Some c \<Rightarrow> c)\<rparr>"

definition setUserPreferences ::
  "bool \<Rightarrow> PartialUserPreferences \<Rightarrow> app \<Rightarrow> (thrown + unit) \<times> app" where
  "setUserPreferences wr prefs s =
     (case user s of
        None \<Rightarrow> (Inl UserNotAuthenticated, s)
      | Some u \<Rightarrow>
          (let updatedPreferences = merge_preferences (preferences u) prefs;
               s1 = s\<lparr>db_user_profiles :=
                      update_rows wr (\<lambda>r. user.id r = user.id u)
                        (\<lambda>r. r\<lparr>preferences := updatedPreferences\<rparr>) (db_user_profiles s)\<rparr>
           in if \<not> wr then (Inr (), toast ''Error updating preferences'' s1)
              else (Inr (),
                    s1\<lparr>user := (case user s1 of None \<Rightarrow> None
                                 | Some prev \<Rightarrow> Some (prev\<lparr>preferences := updatedPreferences\<rparr>))\<rparr>)))"

definition toggleColorMode :: "bool \<Rightarrow> app \<Rightarrow> (thrown + unit) \<times> app" where
  "toggleColorMode wr s =
     (case user s of
        None \<Rightarrow> (Inl UserNotAuthenticated, s)
      | Some u \<Rightarrow>
          (let currentMode = colorScheme (preferences u);
               newMode = (if currentMode = light then dark
                          else if currentMode = dark then system
                          else light)
           in setUserPreferences wr
                \<lparr>showImagesInFeed_opt = None, showContentInFeed_opt = None,
                 colorScheme_opt = Some newMode\<rparr> s))"

section \<open>Strings\<close>

text \<open>
  \<^verbatim>\<open>String.prototype.trim\<close> removes white space and line terminators at both ends: tab,
  line feed, vertical tab, form feed, carriage return, space, no-break space, the space
  separators of Unicode (U+1680, U+2000 to U+200A, U+202F, U+205F, U+3000), the line and the
  paragraph separator (U+2028, U+2029) and the byte order mark (U+FEFF). Each is one code
  unit.
\<close>

definition is_white_space :: "16 word \<Rightarrow> bool" where
  "is_white_space c =
     (c \<in> set [0x0009, 0x000A, 0x000B, 0x000C, 0x000D, 0x0020, 0x00A0, 0x1680,
        0x2000, 0x2001, 0x2002, 0x2003, 0x2004, 0x2005, 0x2006, 0x2007, 0x2008, 0x2009, 0x200A,
        0x2028, 0x2029, 0x202F, 0x205F, 0x3000, 0xFEFF])"

definition trim :: "js_string \<Rightarrow> js_string" where
  "trim str = rev (dropWhile is_white_space (rev (dropWhile is_white_space str)))"

text \<open>A string option in a boolean position: \<^verbatim>\<open>undefined\<close> and \<^verbatim>\<open>""\<close> are falsy.\<close>

definition truthy :: "string option \<Rightarrow> bool" where
  "truthy v = (case v of None \<Rightarrow> False | Some str \<Rightarrow> str \<noteq> [])"

text \<open>The letters \<^verbatim>\<open>A\<close> to \<^verbatim>\<open>Z\<close> in lower case; every other code unit as it is.\<close>

definition to_lower :: "16 word \<Rightarrow> 16 word" where
  "to_lower c = (if 0x41 \<le> c \<and> c \<le> 0x5A then c + 0x20 else c)"

fun starts_with :: "'a list \<Rightarrow> 'a list \<Rightarrow> bool" where
  "starts_with [] str = True"
| "starts_with (c # q) [] = False"
| "starts_with (c # q) (d # str) = (c = d \<and> starts_with q str)"

fun contains :: "'a list \<Rightarrow> 'a list \<Rightarrow> bool" where
  "contains q [] = (q = [])"
| "contains q (d # str) = (starts_with q (d # str) \<or> contains q str)"

definition ilike_contains :: "js_string \<Rightarrow> js_string \<Rightarrow> bool" where
  \<comment> \<open>Modelled from the spec: the backend's evaluation of \<^verbatim>\<open>col.ilike.%query%\<close>, a
      case-insensitive substring match; the query is taken literally.\<close>
  "ilike_contains query str = contains (map to_lower query) (map to_lower str)"

section \<open>Identity Resolver\<close>

definition adjectives :: "string list" where
  "adjectives = [''Green'', ''Forest'', ''Earth'', ''River'', ''Ocean'', ''Wild'', ''Nature'',
     ''Eco'', ''Solar'', ''Wind'']"

definition nouns :: "string list" where
  "nouns = [''Guardian'', ''Defender'', ''Warrior'', ''Friend'', ''Hero'', ''Spirit'',
     ''Advocate'', ''Pioneer'', ''Keeper'', ''Voice'']"

text \<open>An array read; out of range it gives \<^verbatim>\<open>undefined\<close>, which a template literal prints.\<close>

definition element :: "string list \<Rightarrow> nat \<Rightarrow> string" where
  "element xs i = (if i < length xs then xs ! i else ''undefined'')"

text \<open>
  The two draws \<^verbatim>\<open>Math.floor(Math.random() * 10)\<close> are the parameters \<open>i\<close> and \<open>j\<close>; each
  lies between 0 and 9.
\<close>

definition generateRandomUsername :: "nat \<Rightarrow> nat \<Rightarrow> string" where
  "generateRandomUsername i j = element adjectives i @ element nouns j"

text \<open>\<^verbatim>\<open>email.split("@")[0]\<close>: what stands before the first \<^verbatim>\<open>@\<close>.\<close>

definition split_at_0 :: "string \<Rightarrow> string" where
  "split_at_0 str = takeWhile (\<lambda>c. c \<noteq> CHR ''@'') str"

text \<open>
  \<^verbatim>\<open>handleAccountCreation\<close>, run on a sign-in event. \<open>i\<close> and \<open>j\<close> are the draws of the call of
  \<^verbatim>\<open>generateRandomUsername\<close> inside the test for anonymity, \<open>wr\<close> the outcome of the update
  of the profile.
\<close>

definition handleAccountCreation :: "nat \<Rightarrow> nat \<Rightarrow> bool \<Rightarrow> userData \<Rightarrow> app \<Rightarrow> app" where
  "handleAccountCreation i j wr ud s =
     (case user s of
        None \<Rightarrow> s
      | Some u \<Rightarrow>
          (let wasAnonymous =
                 (\<not> truthy (email u) \<and> full_name u = Some (generateRandomUsername i j))
           in if wasAnonymous then
                (let new_name =
                       (if truthy (ud_full_name ud) then ud_full_name ud
                        else if truthy (map_option split_at_0 (ud_email ud))
                        then map_option split_at_0 (ud_email ud)
                        else Some ''EcoUser'');
                     updatedUser =
                       (\<lambda>r. r\<lparr>full_name := new_name,
                               email := (if truthy (ud_email ud) then ud_email ud else email r)\<rparr>);
                     s1 = s\<lparr>db_user_profiles :=
                            update_rows wr (\<lambda>r. user.id r = ud_id ud) updatedUser
                              (db_user_profiles s)\<rparr>
                 in if wr then s1\<lparr>user := Some (updatedUser u)\<rparr> else s1)
              else s))"

section \<open>Derived View Engine\<close>

definition searchPosts :: "bool \<Rightarrow> js_string \<Rightarrow> app \<Rightarrow> post list \<times> app" where
  "searchPosts rd query s =
     (if trim query = [] then (posts s, s)
      else if \<not> rd then ([], toast ''Error searching posts'' s)
      else (filter (\<lambda>p. ilike_contains query (post.title p) \<or> ilike_contains query (post.content p))
              (db_posts s), s))"

text \<open>
  \<^verbatim>\<open>Array.prototype.sort\<close> with a comparator is a stable sort: \<open>a\<close> stays before \<open>b\<close> unless
  the comparator is positive on them. Both comparators below order by a key, and every
  stable sort then returns the same array; insertion into the sorted rest stands for it.
\<close>

fun insert_by :: "('a \<Rightarrow> 'a \<Rightarrow> int) \<Rightarrow> 'a \<Rightarrow> 'a list \<Rightarrow> 'a list" where
  "insert_by cmp a [] = [a]"
| "insert_by cmp a (b # bs) = (if cmp a b \<le> 0 then a # b # bs else b # insert_by cmp a bs)"

definition array_sort :: "('a \<Rightarrow> 'a \<Rightarrow> int) \<Rightarrow> 'a list \<Rightarrow> 'a list" where
  "array_sort cmp xs = foldr (insert_by cmp) xs []"

datatype sortBy = by_time | by_upvotes

text \<open>\<^verbatim>\<open>x || 0\<close> on a number: 0 when \<open>x\<close> is 0, and \<open>x\<close> otherwise.\<close>

definition or_zero :: "int \<Rightarrow> int" where
  "or_zero x = (if x = 0 then 0 else x)"

text \<open>The comparator of \<^verbatim>\<open>applyFilters\<close> (HomePage, src/unnamed/part_000).\<close>

definition compare_posts :: "sortBy \<Rightarrow> post \<Rightarrow> post \<Rightarrow> int" where
  "compare_posts sb a b =
     (if sb = by_time then post.created_at b - post.created_at a
      else if sb = by_upvotes then or_zero (upvotes b) - or_zero (upvotes a)
      else 0)"

definition applyFilters ::
  "bool \<Rightarrow> js_string \<Rightarrow> PostFlag option \<Rightarrow> sortBy \<Rightarrow> app \<Rightarrow> post list \<times> app" where
  "applyFilters rd searchQuery selectedFlag sb s =
     (let (result1, s1) = (if length searchQuery > 0 then searchPosts rd searchQuery s
                           else (posts s, s));
          result2 = (case selectedFlag of None \<Rightarrow> result1
                     | Some f \<Rightarrow> filter (\<lambda>p. post.flag p = Some f) result1)
      in (array_sort (compare_posts sb) result2, s1))"

text \<open>
  Submitting the form of the Create Post page (PostForm, src/unnamed/part_003, with the
  \<^verbatim>\<open>handleSubmit\<close> of CreatePostPage as \<^verbatim>\<open>onSubmit\<close>): the result is the validation error
  shown, if any.
\<close>

definition handleSubmit ::
  "bool \<Rightarrow> string \<Rightarrow> int \<Rightarrow> js_string \<Rightarrow> js_string \<Rightarrow> string \<Rightarrow> PostFlag option
   \<Rightarrow> string option \<Rightarrow> app \<Rightarrow> string option \<times> app" where
  "handleSubmit wr new_id now title' content' imageUrl flag' repostId s =
     (if trim title' = [] then (Some ''Title is required'', s)
      else (case createPost wr new_id now title' content' (Some imageUrl) flag' repostId s of
              (Inl e, s1) \<Rightarrow> (None, toast ''Error'' s1)
            | (Inr newPost, s1) \<Rightarrow> (None, s1)))"

section \<open>Sessions: calls of upvotePost in flight, and change notifications\<close>

text \<open>
  The runtime runs one handler to completion and then the next; a call of \<^verbatim>\<open>upvotePost\<close>
  is three such stretches, and nothing orders the stretches of different calls
  (\<^verbatim>\<open>PostCard.handleUpvote\<close> starts a call and does not wait for it). An event of a session
  is therefore one stretch of one call, named by the number of the call, or a change
  notification handed to one of the two handlers. The calls are calls on one post.
\<close>

datatype event =
    UpvoteSelect nat bool
  | UpvoteUpdate nat bool
  | UpvoteSetPosts nat
  | PostsChange "post payload"
  | CommentsChange "comment payload"

text \<open>How far a call has come: it holds the data it read, or its update has been sent.\<close>

datatype in_flight = Selected post | Updated

type_synonym session = "app \<times> (nat \<Rightarrow> in_flight option)"

fun step :: "string \<Rightarrow> event \<Rightarrow> session \<Rightarrow> session" where
  "step pid (UpvoteSelect k rd) (s, calls) =
     (case upvotePost_select rd pid s of
        (Inr (Some data), s1) \<Rightarrow> (s1, calls(k \<mapsto> Selected data))
      | (r, s1) \<Rightarrow> (s1, calls))"
| "step pid (UpvoteUpdate k wr) (s, calls) =
     (case calls k of
        Some (Selected data) \<Rightarrow> (upvotePost_update wr pid data s, calls(k \<mapsto> Updated))
      | _ \<Rightarrow> (s, calls))"
| "step pid (UpvoteSetPosts k) (s, calls) =
     (case calls k of
        Some Updated \<Rightarrow> (upvotePost_setPosts pid s, calls(k := None))
      | _ \<Rightarrow> (s, calls))"
| "step pid (PostsChange pl) (s, calls) = (s\<lparr>posts := postsOnChange pl (posts s)\<rparr>, calls)"
| "step pid (CommentsChange pl) (s, calls) =
     (s\<lparr>comments := commentsOnChange pl (comments s)\<rparr>, calls)"

fun run :: "string \<Rightarrow> event list \<Rightarrow> session \<Rightarrow> session" where
  "run pid [] ss = ss"
| "run pid (e # es) ss = run pid es (step pid e ss)"

text \<open>The state a session reaches from \<open>s\<close> with no call in flight.\<close>

definition session_from :: "string \<Rightarrow> event list \<Rightarrow> app \<Rightarrow> app" where
  "session_from pid evs s = fst (run pid evs (s, \<lambda>k. None))"

text \<open>The upvote count a table of posts holds for an id, when exactly one row bears the id.\<close>

definition stored_upvotes :: "post list \<Rightarrow> string \<Rightarrow> int option" where
  "stored_upvotes rows pid =
     map_option upvotes (select_single True (\<lambda>p. post.id p = pid) rows)"

text \<open>
  Two calls on the post \<open>p1\<close> that overlap: both read before either writes. And three calls
  of which the first writes last.
\<close>

definition overlapping_upvotes :: "event list" where
  "overlapping_upvotes =
     [UpvoteSelect 1 True, UpvoteSelect 2 True,
      UpvoteUpdate 1 True, UpvoteSetPosts 1,
      UpvoteUpdate 2 True, UpvoteSetPosts 2]"

definition upvotes_before_late_write :: "event list" where
  "upvotes_before_late_write =
     [UpvoteSelect 1 True,
      UpvoteSelect 2 True, UpvoteUpdate 2 True, UpvoteSetPosts 2,
      UpvoteSelect 3 True, UpvoteUpdate 3 True, UpvoteSetPosts 3]"

definition late_write :: "event list" where
  "late_write = [UpvoteUpdate 1 True, UpvoteSetPosts 1]"

section \<open>Auxiliary notions of the statements\<close>

text \<open>
  The state in which the access-denied branch of \<^verbatim>\<open>updatePost\<close>, \<^verbatim>\<open>deletePost\<close> and
  \<^verbatim>\<open>deleteComment\<close> leaves the application: the loading flag is reset and the toast
  ``Access denied'' is raised; the tables and the collections are those of \<open>s\<close>.
\<close>

definition access_denied :: "app \<Rightarrow> app" where
  "access_denied s = s\<lparr>isLoading := False, toasts := toasts s @ [''Access denied'']\<rparr>"

text \<open>The color scheme of the active identity, and a toggle whose request goes through.\<close>

definition scheme_of :: "app \<Rightarrow> ColorScheme option" where
  "scheme_of s = map_option (\<lambda>u. colorScheme (preferences u)) (user s)"

definition toggle :: "app \<Rightarrow> app" where
  "toggle s = snd (toggleColorMode True s)"

text \<open>The search condition: the query occurs in the title or in the content.\<close>

definition matches :: "js_string \<Rightarrow> post \<Rightarrow> bool" where
  "matches query p = (ilike_contains query (post.title p) \<or> ilike_contains query (post.content p))"

section \<open>Example data\<close>

definition default_preferences :: UserPreferences where
  "default_preferences =
     \<lparr>showImagesInFeed = True, showContentInFeed = False, colorScheme = system\<rparr>"

definition green_guardian :: user where
  "green_guardian =
     \<lparr>user.id = ''u1'', full_name = Some ''GreenGuardian'', preferences = default_preferences,
      email = None\<rparr>"

definition alex_sign_in :: userData where
  "alex_sign_in = \<lparr>ud_id = ''u1'', ud_email = Some ''a@b.com'', ud_full_name = Some ''Alex''\<rparr>"

definition hello_post :: post where
  "hello_post =
     \<lparr>post.id = ''p1'', post.title = code_units ''Hello'', post.content = [], image_url = None,
      post.created_at = 1000, upvotes = 1, post.user_id = ''u1'',
      post.user_name = Some ''GreenGuardian'', flag = Some News, repost_of = None\<rparr>"

definition world_post :: post where
  "world_post =
     \<lparr>post.id = ''p2'', post.title = code_units ''World'', post.content = code_units ''wide web'', image_url = None,
      post.created_at = 2000, upvotes = 1, post.user_id = ''u2'',
      post.user_name = Some ''OceanVoice'', flag = Some News, repost_of = None\<rparr>"

definition first_comment :: comment where
  "first_comment =
     \<lparr>comment.id = ''c1'', post_id = ''p1'', comment.content = code_units ''hi'',
      comment.created_at = 3000, comment.user_id = ''u2'',
      comment.user_name = Some ''OceanVoice''\<rparr>"

definition second_comment :: comment where
  "second_comment =
     \<lparr>comment.id = ''c2'', post_id = ''p2'', comment.content = code_units ''ho'',
      comment.created_at = 4000, comment.user_id = ''u1'',
      comment.user_name = Some ''GreenGuardian''\<rparr>"

definition forum :: app where
  "forum =
     \<lparr>db_posts = [world_post, hello_post], db_comments = [first_comment, second_comment],
      db_user_profiles = [green_guardian],
      posts = [world_post, hello_post], comments = [first_comment, second_comment],
      user = Some green_guardian, isLoading = False, toasts = []\<rparr>"

section \<open>Collection Store: ids under change events\<close>

lemma ids_after_update:
  "map (post.id \<circ> (\<lambda>p. if post.id p = post.id new then new else p)) prev = map post.id prev"
  by (induction prev) auto

lemma update_event_twice:
  "postsOnChange (UPDATE new) (postsOnChange (UPDATE new) prev) = postsOnChange (UPDATE new) prev"
  by (induction prev) auto

text \<open>
  Claim C1, as stated: an insert event whose payload id already occurs in the collection
  creates no duplicate entry. The handler prepends the payload whatever the collection
  holds: inserting the post \<open>p1\<close> into the collection that holds \<open>p1\<close> gives two entries
  with that id.
\<close>

theorem postsOnChange_insert_duplicate:
  "\<not> distinct (map post.id (postsOnChange (INSERT hello_post) [hello_post]))"
  by simp

text \<open>
  Claim C1, amended: on a collection with pairwise distinct ids, the insert handler
  prepends the payload unconditionally: the result is the payload followed by the
  collection as it was, so the entries bearing the payload id are one more than before, and
  the ids stay pairwise distinct exactly when the payload id did not occur yet. An update
  event puts the payload in the place of every entry bearing its id and leaves the other
  entries, their order and all ids as they were; a delete event removes the entries bearing
  the id and no other. Both keep the ids pairwise distinct, and applying the same update or
  the same delete twice gives what applying it once gives.
\<close>

theorem postsOnChange_ids:
  assumes "distinct (map post.id prev)"
  shows "postsOnChange (INSERT new) prev = new # prev
       \<and> length (filter (\<lambda>p. post.id p = post.id new) (postsOnChange (INSERT new) prev))
           = Suc (length (filter (\<lambda>p. post.id p = post.id new) prev))
       \<and> distinct (map post.id (postsOnChange (INSERT new) prev))
           = (post.id new \<notin> set (map post.id prev))
       \<and> postsOnChange (UPDATE new) prev
           = map (\<lambda>p. if post.id p = post.id new then new else p) prev
       \<and> map post.id (postsOnChange (UPDATE new) prev) = map post.id prev
       \<and> distinct (map post.id (postsOnChange (UPDATE new) prev))
       \<and> postsOnChange (DELETE old_id) prev = filter (\<lambda>p. post.id p \<noteq> old_id) prev
       \<and> old_id \<notin> set (map post.id (postsOnChange (DELETE old_id) prev))
       \<and> distinct (map post.id (postsOnChange (DELETE old_id) prev))
       \<and> postsOnChange (UPDATE new) (postsOnChange (UPDATE new) prev)
           = postsOnChange (UPDATE new) prev
       \<and> postsOnChange (DELETE old_id) (postsOnChange (DELETE old_id) prev)
           = postsOnChange (DELETE old_id) prev"
proof -
  have ids: "map post.id (postsOnChange (UPDATE new) prev) = map post.id prev"
    by (simp add: ids_after_update)
  have "distinct (map post.id (postsOnChange (UPDATE new) prev))"
    unfolding ids by (rule assms)
  moreover have "distinct (map post.id (postsOnChange (DELETE old_id) prev))"
    using assms by (simp add: distinct_map_filter)
  moreover have "old_id \<notin> set (map post.id (postsOnChange (DELETE old_id) prev))"
    by auto
  moreover have "distinct (map post.id (postsOnChange (INSERT new) prev))
      = (post.id new \<notin> set (map post.id prev))"
    using assms by simp
  ultimately show ?thesis
    using ids update_event_twice [of new prev] by simp
qed

theorem postsOnChange_ids_witness:
  "distinct (map post.id [world_post, hello_post])
   \<and> postsOnChange (INSERT hello_post) [world_post, hello_post]
       = [hello_post, world_post, hello_post]
   \<and> \<not> distinct (map post.id (postsOnChange (INSERT hello_post) [world_post, hello_post]))
   \<and> postsOnChange (UPDATE (hello_post\<lparr>upvotes := 5\<rparr>)) [world_post, hello_post]
       = [world_post, hello_post\<lparr>upvotes := 5\<rparr>]
   \<and> postsOnChange (DELETE ''p1'') [world_post, hello_post] = [world_post]"
proof -
  have d: "distinct (map post.id [world_post, hello_post])"
    by (simp add: world_post_def hello_post_def)
  have "postsOnChange (UPDATE (hello_post\<lparr>upvotes := 5\<rparr>)) [world_post, hello_post]
       = [world_post, hello_post\<lparr>upvotes := 5\<rparr>]"
    using postsOnChange_ids [OF d, of "hello_post\<lparr>upvotes := 5\<rparr>" "''p1''"]
    by (simp add: world_post_def hello_post_def)
  moreover have "postsOnChange (DELETE ''p1'') [world_post, hello_post] = [world_post]"
    using postsOnChange_ids [OF d, of hello_post "''p1''"]
    by (simp add: world_post_def hello_post_def)
  ultimately show ?thesis
    using postsOnChange_ids [OF d, of hello_post "''p1''"] d
    by (simp add: hello_post_def)
qed

section \<open>Identity Resolver: sign-in of an anonymous identity\<close>

lemma generate_Green_Guardian: "generateRandomUsername 0 0 = ''GreenGuardian''"
  by (simp add: generateRandomUsername_def element_def adjectives_def nouns_def)

lemma generate_Forest_Guardian: "generateRandomUsername (Suc 0) 0 = ''ForestGuardian''"
  by (simp add: generateRandomUsername_def element_def adjectives_def nouns_def)

text \<open>Of the hundred draws, one gives the name ``GreenGuardian''.\<close>

lemma draw_Green_Guardian:
  assumes "i < 10" and "j < 10"
  shows "generateRandomUsername i j = ''GreenGuardian'' \<longleftrightarrow> i = 0 \<and> j = 0"
proof -
  from assms(1) have i: "i \<in> {0, 1, 2, 3, 4, 5, 6, 7, 8, 9}" by auto
  from assms(2) have j: "j \<in> {0, 1, 2, 3, 4, 5, 6, 7, 8, 9}" by auto
  from i j show ?thesis
    by (auto simp add: generateRandomUsername_def element_def adjectives_def nouns_def)
qed

lemma sign_in_ignored_on_other_draw:
  assumes "i < 10" and "j < 10" and "\<not> (i = 0 \<and> j = 0)"
  shows "handleAccountCreation i j wr alex_sign_in forum = forum"
proof -
  from assms have "generateRandomUsername i j \<noteq> ''GreenGuardian''"
    by (simp add: draw_Green_Guardian)
  then have "full_name green_guardian \<noteq> Some (generateRandomUsername i j)"
    by (auto simp add: green_guardian_def)
  then show ?thesis
    by (simp add: handleAccountCreation_def forum_def)
qed

text \<open>
  Claim C2: an anonymous identity named ``GreenGuardian'' that signs in with the email
  \<^verbatim>\<open>a@b.com\<close> and the full name ``Alex'' ends with the display name ``Alex'', that email and
  the same id. The code decides whether the identity was anonymous by comparing its name
  with a name drawn afresh. When the draw is ``ForestGuardian'' (\<open>i = 1\<close>, \<open>j = 0\<close>) the
  sign-in changes nothing, in the profile table or in the session; only when the draw is
  ``GreenGuardian'' again (\<open>i = 0\<close>, \<open>j = 0\<close>) is the identity merged as the claim says.
\<close>

theorem sign_in_merge_depends_on_draw:
  "handleAccountCreation 1 0 True alex_sign_in forum = forum
   \<and> user (handleAccountCreation 0 0 True alex_sign_in forum)
       = Some (green_guardian\<lparr>full_name := Some ''Alex'', email := Some ''a@b.com''\<rparr>)"
  by (simp add: handleAccountCreation_def generate_Green_Guardian generate_Forest_Guardian
      forum_def green_guardian_def truthy_def alex_sign_in_def update_rows_def Let_def)

section \<open>Mutation Gateway: ownership\<close>

lemmas example_defs = forum_def green_guardian_def hello_post_def world_post_def
  first_comment_def second_comment_def default_preferences_def

lemma select_single_absent:
  assumes "x \<notin> set (map key rows)"
  shows "select_single rd (\<lambda>r. key r = x) rows = None"
proof -
  from assms have "filter (\<lambda>r. key r = x) rows = []"
    by (induction rows) auto
  then show ?thesis by (simp add: select_single_def)
qed

text \<open>
  Claim C4: when the active identity is \<open>u\<close> and the stored post (comment) of the given id
  belongs to another identity, \<^verbatim>\<open>updatePost\<close>, \<^verbatim>\<open>deletePost\<close> and \<^verbatim>\<open>deleteComment\<close>
  return false through the access-denied branch; the state they leave is \<open>access_denied s\<close>,
  so the stored entity, the tables and the in-memory collections of posts and comments are
  unchanged.
\<close>

theorem ownership_enforced:
  assumes "user s = Some u"
  shows "(\<forall>p. select_single rd (\<lambda>p. post.id p = pid) (db_posts s) = Some p
              \<and> post.user_id p \<noteq> user.id u
            \<longrightarrow> updatePost rd wr pid t c i f s = (Inr False, access_denied s)
              \<and> deletePost rd wrc wrp pid s = (Inr False, access_denied s))
       \<and> (\<forall>cm. select_single rd (\<lambda>c. comment.id c = cid) (db_comments s) = Some cm
              \<and> comment.user_id cm \<noteq> user.id u
            \<longrightarrow> deleteComment rd wr cid s = (Inr False, access_denied s))
       \<and> db_posts (access_denied s) = db_posts s
       \<and> db_comments (access_denied s) = db_comments s
       \<and> posts (access_denied s) = posts s
       \<and> comments (access_denied s) = comments s"
  using assms
  by (simp add: updatePost_def deletePost_def deleteComment_def access_denied_def
      setIsLoading_def toast_def)

theorem ownership_enforced_witness:
  "updatePost True True ''p2'' (code_units ''t'') (code_units ''c'') None None forum = (Inr False, access_denied forum)
   \<and> deletePost True True True ''p2'' forum = (Inr False, access_denied forum)
   \<and> deleteComment True True ''c1'' forum = (Inr False, access_denied forum)
   \<and> db_posts (access_denied forum) = db_posts forum
   \<and> db_comments (access_denied forum) = db_comments forum
   \<and> posts (access_denied forum) = posts forum
   \<and> comments (access_denied forum) = comments forum"
proof -
  have u: "user forum = Some green_guardian"
    by (simp add: forum_def)
  have p: "select_single True (\<lambda>p. post.id p = ''p2'') (db_posts forum) = Some world_post
           \<and> post.user_id world_post \<noteq> user.id green_guardian"
    by (simp add: select_single_def example_defs)
  have c: "select_single True (\<lambda>c. comment.id c = ''c1'') (db_comments forum) = Some first_comment
           \<and> comment.user_id first_comment \<noteq> user.id green_guardian"
    by (simp add: select_single_def example_defs)
  from ownership_enforced [OF u, of True "''p2''" True "code_units ''t''" "code_units ''c''" None None True True "''c1''"]
    p c show ?thesis
    by simp
qed

text \<open>
  Claim C10: when the id refers to no stored post (comment), the same three operations
  return false through the same access-denied branch: the result and the state are those
  of an ownership mismatch, \<open>(Inr False, access_denied s)\<close>, with the toast ``Access denied''
  and no outcome of its own for a missing entity; the tables and the in-memory collections
  are unchanged.
\<close>

theorem missing_entity_denied:
  assumes "user s = Some u"
  shows "(pid \<notin> set (map post.id (db_posts s))
            \<longrightarrow> updatePost rd wr pid t c i f s = (Inr False, access_denied s)
              \<and> deletePost rd wrc wrp pid s = (Inr False, access_denied s))
       \<and> (cid \<notin> set (map comment.id (db_comments s))
            \<longrightarrow> deleteComment rd wr cid s = (Inr False, access_denied s))
       \<and> toasts (access_denied s) = toasts s @ [''Access denied'']
       \<and> db_posts (access_denied s) = db_posts s
       \<and> db_comments (access_denied s) = db_comments s
       \<and> posts (access_denied s) = posts s
       \<and> comments (access_denied s) = comments s"
  using assms
  by (simp add: updatePost_def deletePost_def deleteComment_def access_denied_def
      setIsLoading_def toast_def select_single_absent [of _ post.id]
      select_single_absent [of _ comment.id])

theorem missing_entity_denied_witness:
  "updatePost True True ''p9'' (code_units ''t'') (code_units ''c'') None None forum = (Inr False, access_denied forum)
   \<and> deletePost True True True ''p9'' forum = (Inr False, access_denied forum)
   \<and> deleteComment True True ''c9'' forum = (Inr False, access_denied forum)
   \<and> posts (access_denied forum) = posts forum
   \<and> comments (access_denied forum) = comments forum"
proof -
  have u: "user forum = Some green_guardian"
    by (simp add: forum_def)
  have p: "''p9'' \<notin> set (map post.id (db_posts forum))"
    by (simp add: example_defs)
  have c: "''c9'' \<notin> set (map comment.id (db_comments forum))"
    by (simp add: example_defs)
  from missing_entity_denied [OF u, of "''p9''" True True "code_units ''t''" "code_units ''c''" None None True True "''c9''"]
    p c show ?thesis
    by simp
qed

section \<open>Mutation Gateway: deleting a post\<close>

text \<open>
  What a call by the owner does, for every outcome of its two delete requests: the value it
  returns is the outcome of the request on the post alone.
\<close>

lemma deletePost_by_owner:
  assumes "user s = Some u"
    and "select_single True (\<lambda>p. post.id p = pid) (db_posts s) = Some p"
    and "post.user_id p = user.id u"
  shows "fst (deletePost True wrc wrp pid s) = Inr wrp"
    and "db_comments (snd (deletePost True wrc wrp pid s))
         = delete_rows wrc (\<lambda>c. comment.post_id c = pid) (db_comments s)"
    and "db_posts (snd (deletePost True wrc wrp pid s))
         = delete_rows wrp (\<lambda>p. post.id p = pid) (db_posts s)"
  using assms
  by (cases wrp; simp add: deletePost_def setIsLoading_def toast_def Let_def)+

lemma deletePost_all_requests_through:
  assumes "user s = Some u"
    and "select_single True (\<lambda>p. post.id p = pid) (db_posts s) = Some p"
    and "post.user_id p = user.id u"
  shows "fst (deletePost True True True pid s) = Inr True
       \<and> filter (\<lambda>c. comment.post_id c = pid) (db_comments (snd (deletePost True True True pid s))) = []
       \<and> pid \<notin> set (map post.id (db_posts (snd (deletePost True True True pid s))))"
  using deletePost_by_owner [OF assms, of True True]
  by (auto simp add: delete_rows_def filter_empty_conv)

text \<open>
  Claim C5: after a successful \<^verbatim>\<open>deletePost\<close> of a post owned by the active identity, no
  comment has the post as parent and the post is gone. The call returns true, with the
  toast ``Post deleted'', whenever the request that deletes the post goes through; the
  error of the request that deletes the comments is not looked at, unlike that of the
  request on the post. When the first request fails and the second goes through, the owner
  of \<open>p1\<close> is told of a success, the post is gone, and the comment \<open>c1\<close> on it is still stored.
  When both go through, no comment of \<open>p1\<close> is left.
\<close>

theorem deletePost_success_leaves_comment:
  "fst (deletePost True False True ''p1'' forum) = Inr True
   \<and> toasts (snd (deletePost True False True ''p1'' forum)) = [''Post deleted'']
   \<and> db_posts (snd (deletePost True False True ''p1'' forum)) = [world_post]
   \<and> filter (\<lambda>c. comment.post_id c = ''p1'')
        (db_comments (snd (deletePost True False True ''p1'' forum))) = [first_comment]
   \<and> filter (\<lambda>c. comment.post_id c = ''p1'')
        (db_comments (snd (deletePost True True True ''p1'' forum))) = []"
  by (simp add: deletePost_def setIsLoading_def toast_def delete_rows_def select_single_def
      Let_def example_defs)

section \<open>Mutation Gateway: creating a post\<close>

text \<open>
  Claim C8: with an active identity \<open>u\<close> and an insert that goes through, \<^verbatim>\<open>createPost\<close>
  returns the created post, which is the row added to the table: it bears the id the server
  assigned, the owner \<open>user.id u\<close>, the upvote count 0 and the repost reference that was
  given, whatever that reference is. With no active identity it throws ``User not
  authenticated'' and the table is unchanged. The title is not looked at by \<^verbatim>\<open>createPost\<close>;
  the form rejects a title that is empty or white space before the call.
\<close>

theorem createPost_persists:
  "(user s = Some u \<longrightarrow>
      (\<exists>p. fst (createPost True new_id now t c i f r s) = Inr p
          \<and> db_posts (snd (createPost True new_id now t c i f r s)) = db_posts s @ [p]
          \<and> post.id p = new_id \<and> post.user_id p = user.id u \<and> upvotes p = 0
          \<and> repost_of p = r \<and> post.title p = t \<and> post.content p = c
          \<and> image_url p = i \<and> flag p = f))
   \<and> (user s = None \<longrightarrow>
        fst (createPost wr new_id now t c i f r s) = Inl UserNotAuthenticated
      \<and> db_posts (snd (createPost wr new_id now t c i f r s)) = db_posts s)
   \<and> (trim t = [] \<longrightarrow>
        handleSubmit wr new_id now t c img f r s = (Some ''Title is required'', s))"
proof -
  let ?new = "\<lparr>post.id = new_id, post.title = t, post.content = c, post.image_url = i,
      post.created_at = now, post.upvotes = 0, post.user_id = user.id u,
      post.user_name = full_name u, post.flag = f, post.repost_of = r\<rparr>"
  have created: "createPost True new_id now t c i f r s
      = (Inr ?new, s\<lparr>db_posts := db_posts s @ [?new], isLoading := False,
                         toasts := toasts s @ [''Post created'']\<rparr>)"
    if "user s = Some u"
    using that
    by (simp add: createPost_def setIsLoading_def toast_def insert_row_def Let_def)
  have refused: "createPost wr new_id now t c i f r s = (Inl UserNotAuthenticated, s\<lparr>isLoading := True\<rparr>)"
    if "user s = None"
    using that by (simp add: createPost_def setIsLoading_def)
  have blank: "handleSubmit wr new_id now t c img f r s = (Some ''Title is required'', s)"
    if "trim t = []"
    using that by (simp add: handleSubmit_def)
  from created refused blank show ?thesis
    by simp
qed

theorem createPost_persists_witness:
  "(\<exists>p. fst (createPost True ''p3'' 5000 (code_units ''Again'') (code_units ''text'') None (Some Tip) (Some ''p0'') forum) = Inr p
       \<and> db_posts (snd (createPost True ''p3'' 5000 (code_units ''Again'') (code_units ''text'') None (Some Tip) (Some ''p0'') forum))
           = [world_post, hello_post, p]
       \<and> post.id p = ''p3'' \<and> post.user_id p = ''u1'' \<and> upvotes p = 0
       \<and> repost_of p = Some ''p0'')
   \<and> fst (createPost True ''p3'' 5000 (code_units ''Again'') (code_units ''text'') None (Some Tip) (Some ''p0'')
            (forum\<lparr>user := None\<rparr>)) = Inl UserNotAuthenticated
   \<and> handleSubmit True ''p3'' 5000 (code_units ''  '') (code_units ''text'') [] (Some Tip) (Some ''p0'') forum
       = (Some ''Title is required'', forum)"
proof -
  have u: "user forum = Some green_guardian"
    by (simp add: forum_def)
  have n: "user (forum\<lparr>user := None\<rparr>) = None"
    by simp
  have b: "trim (code_units ''  '') = []"
    by (simp add: trim_def is_white_space_def code_units_def)
  have d: "db_posts forum = [world_post, hello_post]" "user.id green_guardian = ''u1''"
    by (simp_all add: forum_def green_guardian_def)
  from createPost_persists [of forum green_guardian "''p3''" 5000 "code_units ''Again''" "code_units ''text''" None "Some Tip"
      "Some ''p0''"] u d
  have "\<exists>p. fst (createPost True ''p3'' 5000 (code_units ''Again'') (code_units ''text'') None (Some Tip) (Some ''p0'') forum) = Inr p
       \<and> db_posts (snd (createPost True ''p3'' 5000 (code_units ''Again'') (code_units ''text'') None (Some Tip) (Some ''p0'') forum))
           = [world_post, hello_post, p]
       \<and> post.id p = ''p3'' \<and> post.user_id p = ''u1'' \<and> upvotes p = 0
       \<and> repost_of p = Some ''p0''"
    by auto
  moreover from createPost_persists [of "forum\<lparr>user := None\<rparr>" green_guardian "''p3''" 5000 "code_units ''Again''"
      "code_units ''text''" None "Some Tip" "Some ''p0''" True] n
  have "fst (createPost True ''p3'' 5000 (code_units ''Again'') (code_units ''text'') None (Some Tip) (Some ''p0'')
            (forum\<lparr>user := None\<rparr>)) = Inl UserNotAuthenticated"
    by simp
  moreover from createPost_persists [of forum green_guardian "''p3''" 5000 "code_units ''  ''" "code_units ''text''" None
      "Some Tip" "Some ''p0''" True "[]"] b
  have "handleSubmit True ''p3'' 5000 (code_units ''  '') (code_units ''text'') [] (Some Tip) (Some ''p0'') forum
       = (Some ''Title is required'', forum)"
    by simp
  ultimately show ?thesis by simp
qed

section \<open>Preference Manager: the color scheme\<close>

lemma toggle_user:
  "user s = Some u \<Longrightarrow>
   user (toggle s) = Some (u\<lparr>preferences := (preferences u)\<lparr>colorScheme :=
      (if colorScheme (preferences u) = light then dark
       else if colorScheme (preferences u) = dark then system else light)\<rparr>\<rparr>)"
  by (simp add: toggle_def toggleColorMode_def setUserPreferences_def merge_preferences_def Let_def)

text \<open>
  Claim C9: a toggle whose request goes through takes the color scheme of the active
  identity from light to dark, from dark to system and from system to light, and three
  such toggles give back the identity as it was, its scheme included.
\<close>

theorem toggle_cycle:
  assumes "user s = Some u"
  shows "(colorScheme (preferences u) = light \<longrightarrow> scheme_of (toggle s) = Some dark)
       \<and> (colorScheme (preferences u) = dark \<longrightarrow> scheme_of (toggle s) = Some system)
       \<and> (colorScheme (preferences u) = system \<longrightarrow> scheme_of (toggle s) = Some light)
       \<and> fst (toggleColorMode True s) = Inr ()
       \<and> user (toggle (toggle (toggle s))) = Some u"
proof -
  note t1 = toggle_user [OF assms]
  note t2 = toggle_user [OF t1]
  note t3 = toggle_user [OF t2]
  have "user (toggle (toggle (toggle s))) = Some u"
    unfolding t3 by (cases "colorScheme (preferences u)") simp_all
  moreover have "fst (toggleColorMode True s) = Inr ()"
    using assms by (simp add: toggleColorMode_def setUserPreferences_def Let_def)
  ultimately show ?thesis
    by (simp add: scheme_of_def t1)
qed

theorem toggle_cycle_witness:
  "scheme_of forum = Some system
   \<and> scheme_of (toggle forum) = Some light
   \<and> scheme_of (toggle (toggle forum)) = Some dark
   \<and> scheme_of (toggle (toggle (toggle forum))) = Some system
   \<and> user (toggle (toggle (toggle forum))) = Some green_guardian"
proof -
  have u0: "user forum = Some green_guardian"
    by (simp add: forum_def)
  have c0: "colorScheme (preferences green_guardian) = system"
    by (simp add: green_guardian_def default_preferences_def)
  note t0 = toggle_cycle [OF u0]
  from t0 c0 have s1: "scheme_of (toggle forum) = Some light"
    by simp
  then obtain u1 where u1: "user (toggle forum) = Some u1" "colorScheme (preferences u1) = light"
    by (auto simp add: scheme_of_def)
  note t1 = toggle_cycle [OF u1(1)]
  from t1 u1(2) have s2: "scheme_of (toggle (toggle forum)) = Some dark"
    by simp
  then obtain u2 where u2: "user (toggle (toggle forum)) = Some u2"
      "colorScheme (preferences u2) = dark"
    by (auto simp add: scheme_of_def)
  note t2 = toggle_cycle [OF u2(1)]
  from t2 u2(2) have s3: "scheme_of (toggle (toggle (toggle forum))) = Some system"
    by simp
  from t0 have "user (toggle (toggle (toggle forum))) = Some green_guardian"
    by simp
  with s1 s2 s3 u0 c0 show ?thesis
    by (simp add: scheme_of_def)
qed

section \<open>Derived View Engine: sorting\<close>

lemma insert_by_upvotes:
  "insert_by (compare_posts by_upvotes) a bs = insort_key (\<lambda>p. - upvotes p) a bs"
  by (induction bs) (auto simp add: compare_posts_def or_zero_def)

lemma array_sort_upvotes:
  "array_sort (compare_posts by_upvotes) xs = sort_key (\<lambda>p. - upvotes p) xs"
  by (induction xs) (simp_all add: array_sort_def insert_by_upvotes)

lemma set_insert_by: "set (insert_by cmp a bs) = insert a (set bs)"
  by (induction bs) auto

lemma set_array_sort: "set (array_sort cmp xs) = set xs"
  by (induction xs) (simp_all add: array_sort_def set_insert_by)

text \<open>
  Claim C6, as stated: the output of the sort by upvotes is ordered by strictly decreasing
  upvote count. Two posts with one upvote each are both kept, so the output is not
  strictly decreasing.
\<close>

theorem upvote_sort_not_strict:
  "\<not> sorted_wrt (\<lambda>a b. upvotes a > upvotes b)
       (array_sort (compare_posts by_upvotes) [world_post, hello_post])"
  by (simp add: array_sort_def compare_posts_def or_zero_def world_post_def hello_post_def)

text \<open>
  Claim C6, amended: for every list of posts, the output of the sort by upvotes is
  ordered by non-increasing upvote count, holds the same posts as the input, each as often,
  and the posts of any one upvote count appear in the order they have in the input.
\<close>

theorem upvote_sort_stable:
  "sorted_wrt (\<lambda>a b. upvotes a \<ge> upvotes b) (array_sort (compare_posts by_upvotes) xs)
   \<and> mset (array_sort (compare_posts by_upvotes) xs) = mset xs
   \<and> (\<forall>k. filter (\<lambda>p. upvotes p = k) (array_sort (compare_posts by_upvotes) xs)
          = filter (\<lambda>p. upvotes p = k) xs)"
proof -
  let ?key = "\<lambda>p::post. - upvotes p"
  have "sorted (map ?key (sort_key ?key xs))"
    by (rule sorted_sort_key)
  then have "sorted_wrt (\<lambda>a b. upvotes a \<ge> upvotes b) (sort_key ?key xs)"
    by (simp add: sorted_map)
  moreover have "filter (\<lambda>p. upvotes p = k) (sort_key ?key xs) = filter (\<lambda>p. upvotes p = k) xs" for k
    using sort_key_stable [of ?key "- k" xs] by simp
  ultimately show ?thesis
    by (simp add: array_sort_upvotes)
qed

section \<open>Derived View Engine: search and flag filter\<close>

lemma trim_empty: "trim [] = []"
  by (simp add: trim_def)

text \<open>White space beyond ASCII is trimmed as well: a query of one no-break space is blank.\<close>

lemma no_break_space_not_searched:
  "trim [0x00A0] = [] \<and> fst (searchPosts True [0x00A0] forum) = posts forum"
  by (simp add: searchPosts_def trim_def is_white_space_def)

text \<open>
  Claim C7, as stated: for every non-empty query the view is the set of posts that match
  the query by substring, cut down to the selected flag. The query of one space is not
  empty, yet it is not searched: the post ``Hello'', whose title and content hold no space,
  is in the view.
\<close>

theorem blank_query_not_searched:
  "hello_post \<in> set (fst (applyFilters True (code_units '' '') (Some News) by_time forum))
   \<and> \<not> (ilike_contains (code_units '' '') (post.title hello_post)
        \<or> ilike_contains (code_units '' '') (post.content hello_post))"
  by code_simp

text \<open>
  Claim C7, amended: with a flag selected and a search request that goes through, the view
  is the flag filter applied to the result of the search, then sorted. For a query that
  holds a character other than white space, the result of the search is the stored posts
  that match it, so the view holds exactly the stored posts that match the query and bear
  the selected flag. For a query of white space only (any white space that
  \<^verbatim>\<open>String.prototype.trim\<close> removes), the search returns the in-memory collection whole,
  and the view holds its posts that bear the flag.
\<close>

theorem filter_composition:
  "fst (applyFilters True searchQuery (Some f) sb s)
     = array_sort (compare_posts sb)
         (filter (\<lambda>p. flag p = Some f) (fst (searchPosts True searchQuery s)))
   \<and> fst (searchPosts True searchQuery s)
     = (if trim searchQuery = [] then posts s else filter (matches searchQuery) (db_posts s))
   \<and> set (fst (applyFilters True searchQuery (Some f) sb s))
     = (if trim searchQuery = [] then set (posts s)
        else {p \<in> set (db_posts s). matches searchQuery p}) \<inter> {p. flag p = Some f}"
proof -
  have search: "fst (searchPosts True searchQuery s)
     = (if trim searchQuery = [] then posts s else filter (matches searchQuery) (db_posts s))"
    by (auto simp add: searchPosts_def matches_def [abs_def])
  have "fst (applyFilters True searchQuery (Some f) sb s)
     = array_sort (compare_posts sb)
         (filter (\<lambda>p. flag p = Some f) (fst (searchPosts True searchQuery s)))"
    by (cases searchQuery) (auto simp add: applyFilters_def searchPosts_def trim_empty split: prod.splits)
  with search show ?thesis
    by (auto simp add: set_array_sort)
qed

section \<open>Mutation Gateway: upvotes\<close>

lemma filter_map_same_key:
  assumes "\<And>r. key (g r) = key r"
  shows "filter (\<lambda>r. key r = x) (map g rows) = map g (filter (\<lambda>r. key r = x) rows)"
  using assms by (induction rows) auto

lemma select_single_Some:
  "select_single True P rows = Some r \<longleftrightarrow> filter P rows = [r]"
  by (auto simp add: select_single_def split: list.splits)

lemma stored_upvotes_Some:
  "stored_upvotes rows pid = Some c \<longleftrightarrow>
     (\<exists>p. filter (\<lambda>p. post.id p = pid) rows = [p] \<and> upvotes p = c)"
  by (auto simp add: stored_upvotes_def select_single_Some)

text \<open>
  A call that runs through with nothing in between, its requests going through, raises the
  stored count by one and the count of every in-memory entry of the post by one.
\<close>

lemma upvote_alone:
  assumes "user s = Some u" and "stored_upvotes (db_posts s) pid = Some c"
  shows "stored_upvotes (db_posts (snd (upvotePost True True pid s))) pid = Some (c + 1)"
    and "filter (\<lambda>p. post.id p = pid) (posts (snd (upvotePost True True pid s)))
         = map (\<lambda>p. p\<lparr>upvotes := upvotes p + 1\<rparr>) (filter (\<lambda>p. post.id p = pid) (posts s))"
proof -
  from assms(2) obtain p where p: "filter (\<lambda>p. post.id p = pid) (db_posts s) = [p]" "upvotes p = c"
    by (auto simp add: stored_upvotes_Some)
  then have sel: "select_single True (\<lambda>p. post.id p = pid) (db_posts s) = Some p"
    by (simp add: select_single_Some)
  let ?g = "\<lambda>q. if post.id q = pid then q\<lparr>upvotes := upvotes p + 1\<rparr> else q"
  let ?h = "\<lambda>q. if post.id q = pid then q\<lparr>upvotes := upvotes q + 1\<rparr> else q"
  have db: "db_posts (snd (upvotePost True True pid s)) = map ?g (db_posts s)"
    using assms(1) sel
    by (simp add: upvotePost_def upvotePost_select_def upvotePost_update_def
        upvotePost_setPosts_def update_rows_def)
  have loc: "posts (snd (upvotePost True True pid s)) = map ?h (posts s)"
    using assms(1) sel
    by (simp add: upvotePost_def upvotePost_select_def upvotePost_update_def
        upvotePost_setPosts_def)
  have "p \<in> set (filter (\<lambda>p. post.id p = pid) (db_posts s))"
    by (simp add: p(1))
  then have key: "post.id p = pid"
    by simp
  have "filter (\<lambda>p. post.id p = pid) (map ?g (db_posts s))
      = map ?g (filter (\<lambda>p. post.id p = pid) (db_posts s))"
    by (rule filter_map_same_key) simp
  then have "filter (\<lambda>p. post.id p = pid) (map ?g (db_posts s)) = [?g p]"
    by (simp add: p(1))
  then have "stored_upvotes (map ?g (db_posts s)) pid = Some (upvotes (?g p))"
    unfolding stored_upvotes_Some by blast
  with key p(2) show "stored_upvotes (db_posts (snd (upvotePost True True pid s))) pid = Some (c + 1)"
    by (simp add: db)
  have "filter (\<lambda>p. post.id p = pid) (map ?h (posts s))
      = map ?h (filter (\<lambda>p. post.id p = pid) (posts s))"
    by (rule filter_map_same_key) simp
  then show "filter (\<lambda>p. post.id p = pid) (posts (snd (upvotePost True True pid s)))
         = map (\<lambda>p. p\<lparr>upvotes := upvotes p + 1\<rparr>) (filter (\<lambda>p. post.id p = pid) (posts s))"
    by (simp add: loc cong: map_cong)
qed

text \<open>
  Claim C3: after \<open>N\<close> successful calls of \<^verbatim>\<open>upvotePost\<close> on a post stored with the count
  \<open>c\<close> the count is \<open>c + N\<close>, and no operation lowers a count. The call writes the count it
  read earlier plus one, and another call may read or write in between. The post \<open>p1\<close> is
  stored with the count 1. When two calls overlap, both reading before either writes, both
  write 2: after two successful calls the stored count is 2, while the in-memory entry,
  which the updater of \<^verbatim>\<open>setPosts\<close> raises from its current value, shows 3. When a call
  reads the count 1 and writes only after two other calls have raised the stored count to
  3, its write puts the stored count back to 2.
\<close>

theorem overlapping_upvotes_lose_count:
  "stored_upvotes (db_posts forum) ''p1'' = Some 1
   \<and> stored_upvotes (db_posts (session_from ''p1'' overlapping_upvotes forum)) ''p1'' = Some 2
   \<and> map upvotes (filter (\<lambda>p. post.id p = ''p1'')
        (posts (session_from ''p1'' overlapping_upvotes forum))) = [3]
   \<and> toasts (session_from ''p1'' overlapping_upvotes forum) = []
   \<and> stored_upvotes (db_posts (session_from ''p1'' upvotes_before_late_write forum)) ''p1'' = Some 3
   \<and> stored_upvotes
        (db_posts (session_from ''p1'' (upvotes_before_late_write @ late_write) forum)) ''p1''
       = Some 2"
  by code_simp


end
